theory Spec2Isabelle
  imports Main
begin

section \<open>Data model (models.py, schemas.py)\<close>

text \<open>
  The two string-valued enums of models.py. Only the three (respectively three) declared
  members exist, so each is a closed datatype.
\<close>

datatype UserRole = USER | MANAGER | ADMIN

datatype FileVisibility = PRIVATE | DEPARTMENT | PUBLIC

text \<open>
  The ORM rows. Field names follow models.py; \<open>id\<close> and \<open>size\<close> are constants of HOL and
  two records cannot share the field name \<open>department_id\<close>, hence \<open>uid\<close>, \<open>fid\<close>,
  \<open>file_size\<close> and \<open>file_department_id\<close>. Integer columns are Python integers.
  \<open>created_at\<close> is a timestamp, kept as an integer.
\<close>

record User =
  uid :: int
  username :: string
  password_hash :: string
  role :: UserRole
  department_id :: int

record File =
  fid :: int
  owner_id :: int
  file_department_id :: int
  visibility :: FileVisibility
  file_path :: string
  filename :: string
  file_size :: int
  created_at :: int
  downloads_count :: int

text \<open>schemas.UserCreate: the request body of the create-user endpoint.\<close>

record UserCreate =
  new_username :: string
  new_role :: UserRole
  new_department_id :: int
  new_password :: string

text \<open>
  The database session, reduced to the two tables the modelled code queries. A table is
  the list of its rows in the order \<open>query(...).all()\<close> returns them.
\<close>

record database =
  users :: "User list"
  files :: "File list"

text \<open>
  Exceptions as values. \<open>HTTPException status detail\<close> is FastAPI's; \<open>NameError\<close> and
  \<open>AttributeError\<close> are the interpreter's, carrying the name that failed to resolve.
  No handler for the latter two is installed anywhere (main.py registers none).
\<close>

datatype exn =
    HTTPException int string
  | NameError string
  | AttributeError string

section \<open>crud.py\<close>

text \<open>\<open>query(M).filter(c).first()\<close>: the first row satisfying the condition, or None.\<close>

definition get_user_by_username :: "database \<Rightarrow> string \<Rightarrow> User option" where
  "get_user_by_username db name = find (\<lambda>u. username u = name) (users db)"

definition get_user_by_id :: "database \<Rightarrow> int \<Rightarrow> User option" where
  "get_user_by_id db user_id = find (\<lambda>u. uid u = user_id) (users db)"

definition get_users_by_department :: "database \<Rightarrow> int \<Rightarrow> User list" where
  "get_users_by_department db dept = filter (\<lambda>u. department_id u = dept) (users db)"

definition get_all_users :: "database \<Rightarrow> User list" where
  "get_all_users db = users db"

definition get_file_by_id :: "database \<Rightarrow> int \<Rightarrow> File option" where
  "get_file_by_id db file_id = find (\<lambda>f. fid f = file_id) (files db)"

text \<open>
  A row fetched with \<open>first()\<close>, mutated and committed: the table with that row (the
  first one satisfying the condition) replaced by its updated version.
\<close>

fun update_first :: "('a \<Rightarrow> bool) \<Rightarrow> ('a \<Rightarrow> 'a) \<Rightarrow> 'a list \<Rightarrow> 'a list" where
  "update_first P g [] = []"
| "update_first P g (x # xs) = (if P x then g x # xs else x # update_first P g xs)"

definition update_user_role :: "database \<Rightarrow> int \<Rightarrow> UserRole \<Rightarrow> User option \<times> database" where
  "update_user_role db user_id new_role' =
     (case find (\<lambda>u. uid u = user_id) (users db) of
        Some user \<Rightarrow>
          (Some (user\<lparr>role := new_role'\<rparr>),
           db\<lparr>users := update_first (\<lambda>u. uid u = user_id) (\<lambda>u. u\<lparr>role := new_role'\<rparr>) (users db)\<rparr>)
      | None \<Rightarrow> (None, db))"

definition get_accessible_files :: "database \<Rightarrow> User \<Rightarrow> File list" where
  "get_accessible_files db current_user =
     (if role current_user = ADMIN then files db
      else if role current_user = MANAGER then files db
      else filter (\<lambda>f.
             visibility f = PUBLIC
             \<or> (visibility f = DEPARTMENT \<and> file_department_id f = department_id current_user)
             \<or> (visibility f = PRIVATE \<and> owner_id f = uid current_user))
           (files db))"

definition increment_download_count :: "database \<Rightarrow> int \<Rightarrow> bool \<times> database" where
  "increment_download_count db file_id =
     (case find (\<lambda>f. fid f = file_id) (files db) of
        Some file \<Rightarrow>
          (True,
           db\<lparr>files := update_first (\<lambda>f. fid f = file_id)
                          (\<lambda>f. f\<lparr>downloads_count := downloads_count f + 1\<rparr>) (files db)\<rparr>)
      | None \<Rightarrow> (False, db))"

section \<open>dependencies.py\<close>

text \<open>
  The f-string of \<open>require_role_or_higher\<close> interpolates the required role. How a
  member of a \<open>str\<close>-mixin enum is formatted depends on the interpreter's version (the
  member's value, or the member's qualified name); the model takes the member's value. The
  text only tells the raise sites apart.
\<close>

fun role_str :: "UserRole \<Rightarrow> string" where
  "role_str USER = ''USER''"
| "role_str MANAGER = ''MANAGER''"
| "role_str ADMIN = ''ADMIN''"

text \<open>The dict literal \<open>role_hierarchy\<close> and \<open>dict.get(key, default)\<close>.\<close>

definition role_hierarchy :: "UserRole \<rightharpoonup> int" where
  "role_hierarchy = [USER \<mapsto> 1, MANAGER \<mapsto> 2, ADMIN \<mapsto> 3]"

definition dict_get :: "('k \<rightharpoonup> 'v) \<Rightarrow> 'k \<Rightarrow> 'v \<Rightarrow> 'v" where
  "dict_get d k dflt = (case d k of Some v \<Rightarrow> v | None \<Rightarrow> dflt)"

definition require_role_or_higher :: "UserRole \<Rightarrow> User \<Rightarrow> exn + User" where
  "require_role_or_higher required_role current_user =
     (if dict_get role_hierarchy (role current_user) 0 < dict_get role_hierarchy required_role 0
      then Inl (HTTPException 403 (''Role '' @ role_str required_role @ '' or higher required''))
      else Inr current_user)"

definition can_access_file :: "database \<Rightarrow> int \<Rightarrow> User \<Rightarrow> exn + File" where
  "can_access_file db file_id current_user =
     (case get_file_by_id db file_id of
        None \<Rightarrow> Inl (HTTPException 404 ''File not found'')
      | Some file \<Rightarrow>
          if role current_user = ADMIN then Inr file
          else if role current_user = MANAGER then Inr file
          else if role current_user = USER then
            (if visibility file = PUBLIC then Inr file
             else if visibility file = DEPARTMENT
                     \<and> file_department_id file = department_id current_user then Inr file
             else if visibility file = PRIVATE \<and> owner_id file = uid current_user then Inr file
             else Inl (HTTPException 403 ''Access denied to this file''))
          else Inr file)"

definition can_delete_file :: "database \<Rightarrow> int \<Rightarrow> User \<Rightarrow> exn + File" where
  "can_delete_file db file_id current_user =
     (case get_file_by_id db file_id of
        None \<Rightarrow> Inl (HTTPException 404 ''File not found'')
      | Some file \<Rightarrow>
          if role current_user = ADMIN then Inr file
          else if role current_user = MANAGER then
            (if file_department_id file = department_id current_user then Inr file
             else Inl (HTTPException 403 ''Can only delete files from your department''))
          else if role current_user = USER then
            (if owner_id file = uid current_user then Inr file
             else Inl (HTTPException 403 ''Can only delete your own files''))
          else Inr file)"


section \<open>config.py\<close>

text \<open>
  The attributes of class \<open>Settings\<close> that the modelled code reads. The size limits are
  class attributes that exist, so they are constants. \<open>UPLOAD_DIR\<close> is read from the
  process environment with the default below. The list-valued attributes are kept as the
  table of those the class defines: reading any other name from \<open>settings\<close> raises
  AttributeError, since the class has no \<open>__getattr__\<close>.
\<close>

definition MAX_FILE_SIZE_USER :: int where
  "MAX_FILE_SIZE_USER = 10 * 1024 * 1024"

definition MAX_FILE_SIZE_MANAGER :: int where
  "MAX_FILE_SIZE_MANAGER = 50 * 1024 * 1024"

definition MAX_FILE_SIZE_ADMIN :: int where
  "MAX_FILE_SIZE_ADMIN = 100 * 1024 * 1024"

definition UPLOAD_DIR :: string where
  "UPLOAD_DIR = ''/app/uploads''"

definition Settings_list_attributes :: "(string \<times> string list) list" where
  "Settings_list_attributes = [(''ALLOWED_FILE_TYPES_USER'', [''.pdf''])]"

definition settings_attr :: "string \<Rightarrow> exn + string list" where
  "settings_attr name =
     (case map_of Settings_list_attributes name of
        Some v \<Rightarrow> Inr v
      | None \<Rightarrow> Inl (AttributeError name))"

section \<open>Library functions used by the upload endpoint\<close>

text \<open>
  \<open>os.path.splitext\<close> (POSIX): the extension starts at the last dot, provided that dot
  comes after the last slash and some character between the two is not a dot.
  \<open>str.rfind\<close> gives the last index of a character, or -1. \<open>str.lower\<close> is modelled on
  ASCII letters. \<open>os.path.join\<close> of two components.
\<close>

definition rfind :: "string \<Rightarrow> char \<Rightarrow> int" where
  "rfind p c =
     (if c \<in> set p then int (length p) - 1 - int (length (takeWhile (\<lambda>x. x \<noteq> c) (rev p)))
      else - 1)"

definition splitext :: "string \<Rightarrow> string \<times> string" where
  "splitext p =
     (let sepIndex = rfind p (CHR ''/''); dotIndex = rfind p (CHR ''.'') in
      if dotIndex > sepIndex
         \<and> list_ex (\<lambda>c. c \<noteq> CHR ''.'')
              (take (nat (dotIndex - (sepIndex + 1))) (drop (nat (sepIndex + 1)) p))
      then (take (nat dotIndex) p, drop (nat dotIndex) p)
      else (p, []))"

definition lower_char :: "char \<Rightarrow> char" where
  "lower_char c =
     (case map_of (zip ''ABCDEFGHIJKLMNOPQRSTUVWXYZ'' ''abcdefghijklmnopqrstuvwxyz'') c of
        Some l \<Rightarrow> l
      | None \<Rightarrow> c)"

definition lower :: "string \<Rightarrow> string" where
  "lower s = map lower_char s"

definition os_path_join :: "string \<Rightarrow> string \<Rightarrow> string" where
  "os_path_join a b =
     (if b \<noteq> [] \<and> hd b = CHR ''/'' then b
      else if a = [] \<or> last a = CHR ''/'' then a @ b
      else a @ ''/'' @ b)"

section \<open>crud.py: row creation\<close>

text \<open>
  A new row gets the next integer primary key, and the column defaults of models.py
  (\<open>downloads_count = 0\<close>, \<open>created_at = now()\<close>). \<open>get_password_hash\<close> lives in the
  authentication module, outside the modelled files, and is a parameter.
\<close>

definition next_id :: "int list \<Rightarrow> int" where
  "next_id ids = fold max ids 0 + 1"

definition create_user :: "(string \<Rightarrow> string) \<Rightarrow> database \<Rightarrow> UserCreate \<Rightarrow> User \<times> database" where
  "create_user get_password_hash db user =
     (let db_user = \<lparr>uid = next_id (map uid (users db)),
                      username = new_username user,
                      password_hash = get_password_hash (new_password user),
                      role = new_role user,
                      department_id = new_department_id user\<rparr>
      in (db_user, db\<lparr>users := users db @ [db_user]\<rparr>))"

definition create_file ::
  "database \<Rightarrow> FileVisibility \<Rightarrow> int \<Rightarrow> int \<Rightarrow> string \<Rightarrow> string \<Rightarrow> int \<Rightarrow> int \<Rightarrow> File \<times> database" where
  "create_file db vis owner dept path name sz now =
     (let db_file = \<lparr>fid = next_id (map fid (files db)),
                      owner_id = owner,
                      file_department_id = dept,
                      visibility = vis,
                      file_path = path,
                      filename = name,
                      file_size = sz,
                      created_at = now,
                      downloads_count = 0\<rparr>
      in (db_file, db\<lparr>files := files db @ [db_file]\<rparr>))"

section \<open>routers/files.py\<close>

text \<open>
  The uploaded part of the request: \<open>filename\<close>, \<open>size\<close> (which Starlette may leave as
  None) and the bytes \<open>read()\<close> returns.
\<close>

record UploadFile =
  upload_filename :: string
  upload_size :: "int option"
  upload_content :: string

text \<open>
  What the endpoint takes from outside the program: the UUID drawn for the stored name,
  the error text of a failed disk write (None when the write succeeds) and the clock.
\<close>

record upload_env =
  uuid4 :: string
  disk_error :: "string option"
  clock :: int

datatype FileResponse = FileResponse string string string

record FileListResponse =
  listed_files :: "File list"
  total :: nat

text \<open>Lines 34-45 of \<open>upload_file\<close>: the size limit of the actor's role.\<close>

definition check_file_size :: "UploadFile \<Rightarrow> User \<Rightarrow> exn + unit" where
  "check_file_size file current_user =
     (let max_size =
            (if role current_user = MANAGER then MAX_FILE_SIZE_MANAGER
             else if role current_user = ADMIN then MAX_FILE_SIZE_ADMIN
             else MAX_FILE_SIZE_USER)
      in if (case upload_size file of None \<Rightarrow> False | Some n \<Rightarrow> n \<noteq> 0 \<and> n > max_size)
         then Inl (HTTPException 413 ''File size exceeds maximum allowed size for your role'')
         else Inr ())"

text \<open>Lines 47-66: the extension check, one branch per role, each reading its own setting.\<close>

definition check_file_type :: "UploadFile \<Rightarrow> User \<Rightarrow> exn + unit" where
  "check_file_type file current_user =
     (let file_extension = lower (snd (splitext (upload_filename file))) in
      if role current_user = USER then
        (case settings_attr ''ALLOWED_FILE_TYPES_USER'' of
           Inl e \<Rightarrow> Inl e
         | Inr allowed \<Rightarrow>
             if file_extension \<notin> set allowed
             then Inl (HTTPException 400
                        (''File type '' @ file_extension @ '' not allowed for USER role''))
             else Inr ())
      else if role current_user = MANAGER then
        (case settings_attr ''ALLOWED_FILE_TYPES_MANAGER'' of
           Inl e \<Rightarrow> Inl e
         | Inr allowed \<Rightarrow>
             if file_extension \<notin> set allowed
             then Inl (HTTPException 400
                        (''File type '' @ file_extension @ '' not allowed for MANAGER role''))
             else Inr ())
      else if role current_user = ADMIN then
        (case settings_attr ''ALLOWED_FILE_TYPES_ADMIN'' of
           Inl e \<Rightarrow> Inl e
         | Inr allowed \<Rightarrow>
             if file_extension \<notin> set allowed
             then Inl (HTTPException 400
                        (''File type '' @ file_extension @ '' not allowed for ADMIN role''))
             else Inr ())
      else Inr ())"

text \<open>Lines 68-73: the visibility rule.\<close>

definition check_visibility :: "FileVisibility \<Rightarrow> User \<Rightarrow> exn + unit" where
  "check_visibility vis current_user =
     (if role current_user = USER \<and> vis \<noteq> PRIVATE
      then Inl (HTTPException 403 ''USER role can only create PRIVATE files'')
      else Inr ())"

text \<open>Lines 75-102: the bytes go to disk under a fresh name, then the row is created.\<close>

definition store_upload ::
  "upload_env \<Rightarrow> database \<Rightarrow> UploadFile \<Rightarrow> FileVisibility \<Rightarrow> User \<Rightarrow> (exn + File) \<times> database" where
  "store_upload env db file vis current_user =
     (let file_extension = snd (splitext (upload_filename file));
          unique_filename = uuid4 env @ file_extension;
          path = os_path_join UPLOAD_DIR unique_filename
      in case disk_error env of
           Some e \<Rightarrow> (Inl (HTTPException 500 (''Failed to save file: '' @ e)), db)
         | None \<Rightarrow>
             (let (file_record, db') =
                    create_file db vis (uid current_user) (department_id current_user) path
                      (upload_filename file) (int (length (upload_content file))) (clock env)
              in (Inr file_record, db')))"

definition upload_file ::
  "upload_env \<Rightarrow> database \<Rightarrow> UploadFile \<Rightarrow> FileVisibility \<Rightarrow> User \<Rightarrow> (exn + File) \<times> database" where
  "upload_file env db file vis current_user =
     (case check_file_size file current_user of
        Inl e \<Rightarrow> (Inl e, db)
      | Inr _ \<Rightarrow>
          (case check_file_type file current_user of
             Inl e \<Rightarrow> (Inl e, db)
           | Inr _ \<Rightarrow>
               (case check_visibility vis current_user of
                  Inl e \<Rightarrow> (Inl e, db)
                | Inr _ \<Rightarrow> store_upload env db file vis current_user)))"

definition get_file_info :: "database \<Rightarrow> int \<Rightarrow> User \<Rightarrow> exn + File" where
  "get_file_info db file_id current_user = can_access_file db file_id current_user"

definition download_file :: "database \<Rightarrow> int \<Rightarrow> User \<Rightarrow> (exn + FileResponse) \<times> database" where
  "download_file db file_id current_user =
     (case can_access_file db file_id current_user of
        Inl e \<Rightarrow> (Inl e, db)
      | Inr file \<Rightarrow>
          (let (_, db') = increment_download_count db file_id
           in (Inr (FileResponse (file_path file) (filename file) ''application/octet-stream''),
               db')))"

definition list_files :: "database \<Rightarrow> User \<Rightarrow> FileListResponse" where
  "list_files db current_user =
     (let fs = get_accessible_files db current_user
      in \<lparr>listed_files = fs, total = length fs\<rparr>)"

section \<open>routers/users.py\<close>

text \<open>
  The names bound in the module's global namespace: those its import statements bind
  (lines 1-9), \<open>router\<close>, and the four endpoint functions. A global name that is neither
  here nor a builtin raises NameError when the line that mentions it runs.
\<close>

definition users_router_globals :: "string list" where
  "users_router_globals =
     [''APIRouter'', ''Depends'', ''HTTPException'', ''status'',
      ''Session'',
      ''List'',
      ''get_db'',
      ''get_current_user'',
      ''require_role_or_higher'',
      ''User'', ''UserRole'',
      ''UserCreate'', ''UserResponse'', ''UserUpdate'', ''MessageResponse'',
      ''create_user'', ''get_user_by_id'', ''get_users_by_department'', ''get_all_users'',
      ''update_user_role'',
      ''router'',
      ''create_new_user'', ''get_user_info'', ''update_user_role_endpoint'', ''list_users'']"

definition load_global :: "string \<Rightarrow> exn + unit" where
  "load_global name =
     (if name \<in> set users_router_globals then Inr () else Inl (NameError name))"

text \<open>
  Every endpoint of this router takes \<open>current_user\<close> from the dependency
  \<open>require_role_or_higher(UserRole.MANAGER)\<close>, which FastAPI resolves before the body runs.
\<close>

definition create_new_user ::
  "(string \<Rightarrow> string) \<Rightarrow> database \<Rightarrow> UserCreate \<Rightarrow> User \<Rightarrow> (exn + User) \<times> database" where
  "create_new_user get_password_hash db user actor =
     (case require_role_or_higher MANAGER actor of
        Inl e \<Rightarrow> (Inl e, db)
      | Inr current_user \<Rightarrow>
          (case load_global ''get_user_by_username'' of
             Inl e \<Rightarrow> (Inl e, db)
           | Inr _ \<Rightarrow>
               (case get_user_by_username db (new_username user) of
                  Some existing_user \<Rightarrow> (Inl (HTTPException 400 ''Username already exists''), db)
                | None \<Rightarrow>
                    if role current_user = MANAGER \<and> new_role user \<noteq> USER
                    then (Inl (HTTPException 403 ''MANAGER role can only create USER role users''), db)
                    else (let (new_user, db') = create_user get_password_hash db user
                          in (Inr new_user, db')))))"

definition get_user_info :: "database \<Rightarrow> int \<Rightarrow> User \<Rightarrow> exn + User" where
  "get_user_info db user_id actor =
     (case require_role_or_higher MANAGER actor of
        Inl e \<Rightarrow> Inl e
      | Inr current_user \<Rightarrow>
          (case get_user_by_id db user_id of
             None \<Rightarrow> Inl (HTTPException 404 ''User not found'')
           | Some user \<Rightarrow>
               if role current_user = MANAGER \<and> department_id user \<noteq> department_id current_user
               then Inl (HTTPException 403 ''Can only view users from your department'')
               else Inr user))"

definition update_user_role_endpoint ::
  "database \<Rightarrow> int \<Rightarrow> UserRole \<Rightarrow> User \<Rightarrow> (exn + User) \<times> database" where
  "update_user_role_endpoint db user_id new_role' actor =
     (case require_role_or_higher MANAGER actor of
        Inl e \<Rightarrow> (Inl e, db)
      | Inr current_user \<Rightarrow>
          (case get_user_by_id db user_id of
             None \<Rightarrow> (Inl (HTTPException 404 ''User not found''), db)
           | Some user \<Rightarrow>
               if role current_user = MANAGER \<and> department_id user \<noteq> department_id current_user
               then (Inl (HTTPException 403 ''Can only update users from your department''), db)
               else if role current_user = MANAGER \<and> new_role' \<noteq> USER
               then (Inl (HTTPException 403 ''MANAGER role can only change users to USER role''), db)
               else (case update_user_role db user_id new_role' of
                       (None, db') \<Rightarrow>
                         (Inl (HTTPException 500 ''Failed to update user role''), db')
                     | (Some updated_user, db') \<Rightarrow> (Inr updated_user, db'))))"

definition list_users :: "database \<Rightarrow> User \<Rightarrow> exn + User list" where
  "list_users db actor =
     (case require_role_or_higher MANAGER actor of
        Inl e \<Rightarrow> Inl e
      | Inr current_user \<Rightarrow>
          if role current_user = ADMIN then Inr (get_all_users db)
          else Inr (get_users_by_department db (department_id current_user)))"


section \<open>The role floor as the specification words it\<close>

text \<open>
  The specification's \<open>rank\<close> and \<open>meetsFloor\<close>, written from its words (section 4.1), to
  be compared with \<open>require_role_or_higher\<close> above.
\<close>

fun rank_spec :: "UserRole \<Rightarrow> int" where
  "rank_spec USER = 1"
| "rank_spec MANAGER = 2"
| "rank_spec ADMIN = 3"

definition meetsFloor_spec :: "UserRole \<Rightarrow> UserRole \<Rightarrow> bool" where
  "meetsFloor_spec actorRole requiredRole = (rank_spec actorRole \<ge> rank_spec requiredRole)"

section \<open>Example data\<close>

text \<open>
  The four demo accounts that main.py creates at startup (two departments), and a files
  table with one row of each kind the rules distinguish.
\<close>

definition user1 :: User where
  "user1 = \<lparr>uid = 1, username = ''user1'', password_hash = ''h1'', role = USER,
            department_id = 1\<rparr>"

definition manager1 :: User where
  "manager1 = \<lparr>uid = 2, username = ''manager1'', password_hash = ''h2'', role = MANAGER,
               department_id = 1\<rparr>"

definition admin1 :: User where
  "admin1 = \<lparr>uid = 3, username = ''admin1'', password_hash = ''h3'', role = ADMIN,
             department_id = 1\<rparr>"

definition user2 :: User where
  "user2 = \<lparr>uid = 4, username = ''user2'', password_hash = ''h4'', role = USER,
            department_id = 2\<rparr>"

definition mk_file :: "int \<Rightarrow> int \<Rightarrow> int \<Rightarrow> FileVisibility \<Rightarrow> File" where
  "mk_file i owner dept vis =
     \<lparr>fid = i, owner_id = owner, file_department_id = dept, visibility = vis,
      file_path = ''/app/uploads/f.pdf'', filename = ''f.pdf'', file_size = 3,
      created_at = 0, downloads_count = 0\<rparr>"

definition demo_files :: "File list" where
  "demo_files =
     [mk_file 10 4 2 DEPARTMENT,
      mk_file 11 1 1 PRIVATE,
      mk_file 12 4 2 PUBLIC,
      mk_file 13 4 2 PRIVATE,
      mk_file 14 2 1 DEPARTMENT]"

definition demo_db :: database where
  "demo_db = \<lparr>users = [user1, manager1, admin1, user2], files = demo_files\<rparr>"

definition demo_upload :: "string \<Rightarrow> int \<Rightarrow> UploadFile" where
  "demo_upload name sz = \<lparr>upload_filename = name, upload_size = Some sz, upload_content = ''abc''\<rparr>"

definition demo_env :: upload_env where
  "demo_env = \<lparr>uuid4 = ''0f8fad5b-d9cb-469f-a165-70867728950e'', disk_error = None, clock = 7\<rparr>"

section \<open>Auxiliary facts about the table operations\<close>

lemmas demo_defs =
  demo_db_def demo_files_def mk_file_def user1_def user2_def manager1_def admin1_def

lemma find_split:
  "find P xs = Some x \<Longrightarrow> \<exists>pre post. xs = pre @ x # post \<and> P x \<and> (\<forall>y\<in>set pre. \<not> P y)"
proof (induction xs)
  case Nil
  then show ?case by simp
next
  case (Cons a xs)
  show ?case
  proof (cases "P a")
    case True
    with Cons.prems have "a = x" by simp
    with True have "a # xs = [] @ x # xs \<and> P x \<and> (\<forall>y\<in>set []. \<not> P y)" by simp
    then show ?thesis by blast
  next
    case False
    with Cons.prems have "find P xs = Some x" by simp
    then obtain pre post where h: "xs = pre @ x # post" "P x" "\<forall>y\<in>set pre. \<not> P y"
      using Cons.IH by blast
    with False have "a # xs = (a # pre) @ x # post \<and> P x \<and> (\<forall>y\<in>set (a # pre). \<not> P y)"
      by simp
    then show ?thesis by blast
  qed
qed

lemma update_first_split:
  "\<forall>y\<in>set pre. \<not> P y \<Longrightarrow> P x \<Longrightarrow> update_first P g (pre @ x # post) = pre @ g x # post"
  by (induction pre) simp_all

lemma update_first_none:
  "find P xs = None \<Longrightarrow> update_first P g xs = xs"
  by (induction xs) (simp_all split: if_splits)

lemma find_primary_key:
  "distinct (map key xs) \<Longrightarrow> x \<in> set xs \<Longrightarrow> find (\<lambda>y. key y = key x) xs = Some x"
proof (induction xs)
  case Nil
  then show ?case by simp
next
  case (Cons a xs)
  show ?case
  proof (cases "a = x")
    case True
    then show ?thesis by simp
  next
    case False
    with Cons.prems have mem: "x \<in> set xs" by simp
    from Cons.prems have "key a \<notin> key ` set xs" by simp
    with mem have "key a \<noteq> key x" by blast
    moreover from Cons.prems mem have "find (\<lambda>y. key y = key x) xs = Some x"
      using Cons.IH by simp
    ultimately show ?thesis by simp
  qed
qed

lemma rank_is_rank_spec: "dict_get role_hierarchy r 0 = rank_spec r"
  by (cases r) (simp_all add: dict_get_def role_hierarchy_def)

lemma floor_manager:
  "require_role_or_higher MANAGER actor =
     (if role actor = USER
      then Inl (HTTPException 403 ''Role MANAGER or higher required'')
      else Inr actor)"
  by (cases "role actor") (simp_all add: require_role_or_higher_def rank_is_rank_spec)

section \<open>File access: view and download\<close>

text \<open>
  Claim C1. Viewing (\<open>get_file_info\<close>) and downloading (\<open>download_file\<close>) are both decided
  by \<open>can_access_file\<close>: they fail with the same exception or both succeed. The decision
  is: no file with that id gives 404 "File not found"; an ADMIN or MANAGER gets every
  file, whatever its department; a USER gets the file exactly when it is PUBLIC, or
  DEPARTMENT and of the actor's department, or PRIVATE and owned by the actor, and in
  every other case gets 403 "Access denied to this file" (the Forbidden-Visibility deny).
\<close>

theorem can_access_file_decision:
  "(get_file_by_id db file_id = None \<longrightarrow>
      can_access_file db file_id actor = Inl (HTTPException 404 ''File not found''))
   \<and> (\<forall>file. get_file_by_id db file_id = Some file \<longrightarrow>
         ((role actor = ADMIN \<or> role actor = MANAGER) \<longrightarrow>
            can_access_file db file_id actor = Inr file)
         \<and> (role actor = USER \<longrightarrow>
              can_access_file db file_id actor =
                (if visibility file = PUBLIC
                    \<or> (visibility file = DEPARTMENT
                        \<and> file_department_id file = department_id actor)
                    \<or> (visibility file = PRIVATE \<and> owner_id file = uid actor)
                 then Inr file
                 else Inl (HTTPException 403 ''Access denied to this file''))))
   \<and> get_file_info db file_id actor = can_access_file db file_id actor
   \<and> (\<forall>e. (fst (download_file db file_id actor) = Inl e)
            = (get_file_info db file_id actor = Inl e))
   \<and> isl (fst (download_file db file_id actor)) = isl (get_file_info db file_id actor)"
proof -
  have dl: "fst (download_file db file_id actor) =
              (case can_access_file db file_id actor of
                 Inl e \<Rightarrow> Inl e
               | Inr file \<Rightarrow>
                   Inr (FileResponse (file_path file) (filename file)
                          ''application/octet-stream''))"
    by (simp add: download_file_def split: sum.splits prod.splits)
  have same_err: "\<forall>e. (fst (download_file db file_id actor) = Inl e)
                      = (get_file_info db file_id actor = Inl e)"
    unfolding dl get_file_info_def by (cases "can_access_file db file_id actor") simp_all
  have same_isl: "isl (fst (download_file db file_id actor)) = isl (get_file_info db file_id actor)"
    unfolding dl get_file_info_def by (cases "can_access_file db file_id actor") simp_all
  have absent: "get_file_by_id db file_id = None \<longrightarrow>
      can_access_file db file_id actor = Inl (HTTPException 404 ''File not found'')"
    by (simp add: can_access_file_def)
  have present: "\<forall>file. get_file_by_id db file_id = Some file \<longrightarrow>
         ((role actor = ADMIN \<or> role actor = MANAGER) \<longrightarrow>
            can_access_file db file_id actor = Inr file)
         \<and> (role actor = USER \<longrightarrow>
              can_access_file db file_id actor =
                (if visibility file = PUBLIC
                    \<or> (visibility file = DEPARTMENT
                        \<and> file_department_id file = department_id actor)
                    \<or> (visibility file = PRIVATE \<and> owner_id file = uid actor)
                 then Inr file
                 else Inl (HTTPException 403 ''Access denied to this file'')))"
    by (simp add: can_access_file_def)
  from absent present same_err same_isl show ?thesis
    by (simp add: get_file_info_def)
qed

theorem can_access_file_decision_witness:
  "get_file_by_id demo_db 99 = None
   \<and> can_access_file demo_db 99 admin1 = Inl (HTTPException 404 ''File not found'')
   \<and> get_file_by_id demo_db 10 = Some (mk_file 10 4 2 DEPARTMENT)
   \<and> role manager1 = MANAGER
   \<and> can_access_file demo_db 10 manager1 = Inr (mk_file 10 4 2 DEPARTMENT)
   \<and> role user1 = USER
   \<and> can_access_file demo_db 10 user1 = Inl (HTTPException 403 ''Access denied to this file'')
   \<and> fst (download_file demo_db 10 user1) = Inl (HTTPException 403 ''Access denied to this file'')
   \<and> can_access_file demo_db 14 user1 = Inr (mk_file 14 2 1 DEPARTMENT)
   \<and> can_access_file demo_db 11 user1 = Inr (mk_file 11 1 1 PRIVATE)
   \<and> can_access_file demo_db 12 user1 = Inr (mk_file 12 4 2 PUBLIC)
   \<and> can_access_file demo_db 13 user1 = Inl (HTTPException 403 ''Access denied to this file'')"
proof -
  have absent: "get_file_by_id demo_db 99 = None"
    by (simp add: get_file_by_id_def demo_defs)
  have f10: "get_file_by_id demo_db 10 = Some (mk_file 10 4 2 DEPARTMENT)"
    by (simp add: get_file_by_id_def demo_defs)
  have f11: "get_file_by_id demo_db 11 = Some (mk_file 11 1 1 PRIVATE)"
    by (simp add: get_file_by_id_def demo_defs)
  have f12: "get_file_by_id demo_db 12 = Some (mk_file 12 4 2 PUBLIC)"
    by (simp add: get_file_by_id_def demo_defs)
  have f13: "get_file_by_id demo_db 13 = Some (mk_file 13 4 2 PRIVATE)"
    by (simp add: get_file_by_id_def demo_defs)
  have f14: "get_file_by_id demo_db 14 = Some (mk_file 14 2 1 DEPARTMENT)"
    by (simp add: get_file_by_id_def demo_defs)
  have r: "role manager1 = MANAGER" "role user1 = USER" "role admin1 = ADMIN"
    by (simp_all add: demo_defs)
  have a: "can_access_file demo_db 99 admin1 = Inl (HTTPException 404 ''File not found'')"
    using can_access_file_decision [of demo_db 99 admin1] absent by simp
  have b: "can_access_file demo_db 10 manager1 = Inr (mk_file 10 4 2 DEPARTMENT)"
    using can_access_file_decision [of demo_db 10 manager1] f10 r by simp
  have c: "can_access_file demo_db 10 user1 = Inl (HTTPException 403 ''Access denied to this file'')"
    using can_access_file_decision [of demo_db 10 user1] f10 r by (simp add: mk_file_def user1_def)
  have d: "fst (download_file demo_db 10 user1) = Inl (HTTPException 403 ''Access denied to this file'')"
    using can_access_file_decision [of demo_db 10 user1] c by simp
  have e: "can_access_file demo_db 14 user1 = Inr (mk_file 14 2 1 DEPARTMENT)"
    using can_access_file_decision [of demo_db 14 user1] f14 r by (simp add: mk_file_def user1_def)
  have f: "can_access_file demo_db 11 user1 = Inr (mk_file 11 1 1 PRIVATE)"
    using can_access_file_decision [of demo_db 11 user1] f11 r by (simp add: mk_file_def user1_def)
  have g: "can_access_file demo_db 12 user1 = Inr (mk_file 12 4 2 PUBLIC)"
    using can_access_file_decision [of demo_db 12 user1] f12 r by (simp add: mk_file_def user1_def)
  have h: "can_access_file demo_db 13 user1 = Inl (HTTPException 403 ''Access denied to this file'')"
    using can_access_file_decision [of demo_db 13 user1] f13 r by (simp add: mk_file_def user1_def)
  from absent f10 r a b c d e f g h show ?thesis by simp
qed

section \<open>File deletion\<close>

text \<open>
  Claim C2. \<open>can_delete_file\<close>: no file with that id gives 404 "File not found"; an ADMIN
  may delete every file; a MANAGER may delete exactly the files of the manager's own
  department and otherwise gets 403 "Can only delete files from your department" (the
  Forbidden-Department deny); a USER may delete exactly the files the user owns and
  otherwise gets 403 "Can only delete your own files" (the Forbidden-Ownership deny).
\<close>

theorem can_delete_file_decision:
  "(get_file_by_id db file_id = None \<longrightarrow>
      can_delete_file db file_id actor = Inl (HTTPException 404 ''File not found''))
   \<and> (\<forall>file. get_file_by_id db file_id = Some file \<longrightarrow>
         (role actor = ADMIN \<longrightarrow> can_delete_file db file_id actor = Inr file)
         \<and> (role actor = MANAGER \<longrightarrow>
              can_delete_file db file_id actor =
                (if file_department_id file = department_id actor then Inr file
                 else Inl (HTTPException 403 ''Can only delete files from your department'')))
         \<and> (role actor = USER \<longrightarrow>
              can_delete_file db file_id actor =
                (if owner_id file = uid actor then Inr file
                 else Inl (HTTPException 403 ''Can only delete your own files''))))"
  by (simp add: can_delete_file_def)

theorem can_delete_file_decision_witness:
  "get_file_by_id demo_db 99 = None
   \<and> can_delete_file demo_db 99 admin1 = Inl (HTTPException 404 ''File not found'')
   \<and> get_file_by_id demo_db 13 = Some (mk_file 13 4 2 PRIVATE)
   \<and> role admin1 = ADMIN
   \<and> can_delete_file demo_db 13 admin1 = Inr (mk_file 13 4 2 PRIVATE)
   \<and> role manager1 = MANAGER
   \<and> can_delete_file demo_db 13 manager1
       = Inl (HTTPException 403 ''Can only delete files from your department'')
   \<and> can_delete_file demo_db 11 manager1 = Inr (mk_file 11 1 1 PRIVATE)
   \<and> role user1 = USER
   \<and> can_delete_file demo_db 11 user1 = Inr (mk_file 11 1 1 PRIVATE)
   \<and> can_delete_file demo_db 14 user1 = Inl (HTTPException 403 ''Can only delete your own files'')"
proof -
  have absent: "get_file_by_id demo_db 99 = None"
    by (simp add: get_file_by_id_def demo_defs)
  have f11: "get_file_by_id demo_db 11 = Some (mk_file 11 1 1 PRIVATE)"
    by (simp add: get_file_by_id_def demo_defs)
  have f13: "get_file_by_id demo_db 13 = Some (mk_file 13 4 2 PRIVATE)"
    by (simp add: get_file_by_id_def demo_defs)
  have f14: "get_file_by_id demo_db 14 = Some (mk_file 14 2 1 DEPARTMENT)"
    by (simp add: get_file_by_id_def demo_defs)
  have r: "role manager1 = MANAGER" "role user1 = USER" "role admin1 = ADMIN"
    by (simp_all add: demo_defs)
  have a: "can_delete_file demo_db 99 admin1 = Inl (HTTPException 404 ''File not found'')"
    using can_delete_file_decision [of demo_db 99 admin1] absent by simp
  have b: "can_delete_file demo_db 13 admin1 = Inr (mk_file 13 4 2 PRIVATE)"
    using can_delete_file_decision [of demo_db 13 admin1] f13 r by simp
  have c: "can_delete_file demo_db 13 manager1
             = Inl (HTTPException 403 ''Can only delete files from your department'')"
    using can_delete_file_decision [of demo_db 13 manager1] f13 r
    by (simp add: mk_file_def manager1_def)
  have d: "can_delete_file demo_db 11 manager1 = Inr (mk_file 11 1 1 PRIVATE)"
    using can_delete_file_decision [of demo_db 11 manager1] f11 r
    by (simp add: mk_file_def manager1_def)
  have e: "can_delete_file demo_db 11 user1 = Inr (mk_file 11 1 1 PRIVATE)"
    using can_delete_file_decision [of demo_db 11 user1] f11 r
    by (simp add: mk_file_def user1_def)
  have f: "can_delete_file demo_db 14 user1
             = Inl (HTTPException 403 ''Can only delete your own files'')"
    using can_delete_file_decision [of demo_db 14 user1] f14 r
    by (simp add: mk_file_def user1_def)
  from absent f13 r a b c d e f show ?thesis by simp
qed

section \<open>Listing files\<close>

text \<open>
  Claim C3. \<open>get_accessible_files\<close> returns the rows of the files table, in table order,
  that \<open>can_access_file\<close> grants to the same actor when asked for the row's id: the whole
  table for an ADMIN or a MANAGER, and for a USER the rows that are PUBLIC, or DEPARTMENT
  and of the actor's department, or PRIVATE and owned by the actor. The file id is the
  table's primary key, so ids are distinct; this is what lets the single-file check, which
  starts from an id, find the very row the listing is looking at.
\<close>

theorem get_accessible_files_agrees_with_can_access_file:
  assumes pk: "distinct (map fid (files db))"
  shows "get_accessible_files db actor
           = filter (\<lambda>f. \<not> isl (can_access_file db (fid f) actor)) (files db)
         \<and> get_accessible_files db actor
           = filter (\<lambda>f. can_access_file db (fid f) actor = Inr f) (files db)
         \<and> ((role actor = ADMIN \<or> role actor = MANAGER) \<longrightarrow>
              get_accessible_files db actor = files db)
         \<and> (role actor = USER \<longrightarrow>
              get_accessible_files db actor
                = filter (\<lambda>f. visibility f = PUBLIC
                              \<or> (visibility f = DEPARTMENT
                                  \<and> file_department_id f = department_id actor)
                              \<or> (visibility f = PRIVATE \<and> owner_id f = uid actor))
                    (files db))"
proof -
  have lookup: "get_file_by_id db (fid f) = Some f" if "f \<in> set (files db)" for f
    unfolding get_file_by_id_def using pk that by (rule find_primary_key)
  have single: "can_access_file db (fid f) actor =
                  (if role actor = ADMIN \<or> role actor = MANAGER
                      \<or> visibility f = PUBLIC
                      \<or> (visibility f = DEPARTMENT \<and> file_department_id f = department_id actor)
                      \<or> (visibility f = PRIVATE \<and> owner_id f = uid actor)
                   then Inr f
                   else Inl (HTTPException 403 ''Access denied to this file''))"
    if "f \<in> set (files db)" for f
    using lookup [OF that] by (cases "role actor") (simp_all add: can_access_file_def)
  have bulk: "get_accessible_files db actor =
                filter (\<lambda>f. role actor = ADMIN \<or> role actor = MANAGER
                      \<or> visibility f = PUBLIC
                      \<or> (visibility f = DEPARTMENT \<and> file_department_id f = department_id actor)
                      \<or> (visibility f = PRIVATE \<and> owner_id f = uid actor)) (files db)"
    by (cases "role actor") (simp_all add: get_accessible_files_def)
  have one: "get_accessible_files db actor
               = filter (\<lambda>f. \<not> isl (can_access_file db (fid f) actor)) (files db)"
    unfolding bulk by (rule filter_cong [OF refl]) (simp add: single)
  have two: "get_accessible_files db actor
               = filter (\<lambda>f. can_access_file db (fid f) actor = Inr f) (files db)"
    unfolding bulk by (rule filter_cong [OF refl]) (simp add: single)
  have three: "(role actor = ADMIN \<or> role actor = MANAGER) \<longrightarrow>
              get_accessible_files db actor = files db"
    by (auto simp add: get_accessible_files_def)
  have four: "role actor = USER \<longrightarrow>
              get_accessible_files db actor
                = filter (\<lambda>f. visibility f = PUBLIC
                              \<or> (visibility f = DEPARTMENT
                                  \<and> file_department_id f = department_id actor)
                              \<or> (visibility f = PRIVATE \<and> owner_id f = uid actor))
                    (files db)"
    by (simp add: get_accessible_files_def)
  from one two three four show ?thesis by blast
qed

theorem get_accessible_files_agrees_with_can_access_file_witness:
  "distinct (map fid (files demo_db))
   \<and> role user1 = USER
   \<and> get_accessible_files demo_db user1
       = [mk_file 11 1 1 PRIVATE, mk_file 12 4 2 PUBLIC, mk_file 14 2 1 DEPARTMENT]
   \<and> filter (\<lambda>f. \<not> isl (can_access_file demo_db (fid f) user1)) (files demo_db)
       = [mk_file 11 1 1 PRIVATE, mk_file 12 4 2 PUBLIC, mk_file 14 2 1 DEPARTMENT]
   \<and> role manager1 = MANAGER
   \<and> get_accessible_files demo_db manager1 = demo_files
   \<and> filter (\<lambda>f. \<not> isl (can_access_file demo_db (fid f) manager1)) (files demo_db) = demo_files"
proof -
  have pk: "distinct (map fid (files demo_db))"
    by (simp add: demo_defs)
  have r: "role manager1 = MANAGER" "role user1 = USER"
    by (simp_all add: demo_defs)
  have u: "get_accessible_files demo_db user1
             = [mk_file 11 1 1 PRIVATE, mk_file 12 4 2 PUBLIC, mk_file 14 2 1 DEPARTMENT]"
    by (simp add: get_accessible_files_def demo_defs)
  have m: "get_accessible_files demo_db manager1 = demo_files"
    by (simp add: get_accessible_files_def demo_db_def manager1_def)
  note t1 = get_accessible_files_agrees_with_can_access_file [OF pk, of user1]
  note t2 = get_accessible_files_agrees_with_can_access_file [OF pk, of manager1]
  from t1 u have u': "filter (\<lambda>f. \<not> isl (can_access_file demo_db (fid f) user1)) (files demo_db)
       = [mk_file 11 1 1 PRIVATE, mk_file 12 4 2 PUBLIC, mk_file 14 2 1 DEPARTMENT]"
    by simp
  from t2 m have m': "filter (\<lambda>f. \<not> isl (can_access_file demo_db (fid f) manager1)) (files demo_db)
       = demo_files"
    by simp
  from pk r u m u' m' show ?thesis by simp
qed

section \<open>The role floor of the user-management endpoints\<close>

text \<open>
  Claim C7. \<open>require_role_or_higher\<close> passes the actor through exactly when the rank of
  the actor's role is at least the rank of the required role, with the ranks USER = 1,
  MANAGER = 2, ADMIN = 3 (the specification's \<open>meetsFloor\<close>), and otherwise raises 403
  "Role ... or higher required" (the Forbidden-RoleFloor deny); it has no other outcome.
  An ADMIN passes every floor. Each of the four user-management endpoints (create user,
  view user, change role, list users) answers a USER-role actor with that 403, whatever
  the other arguments and the database are, and leaves the database as it was.
\<close>

theorem require_role_or_higher_is_meetsFloor:
  "dict_get role_hierarchy USER 0 = 1
   \<and> dict_get role_hierarchy MANAGER 0 = 2
   \<and> dict_get role_hierarchy ADMIN 0 = 3
   \<and> require_role_or_higher required actor =
       (if meetsFloor_spec (role actor) required then Inr actor
        else Inl (HTTPException 403 (''Role '' @ role_str required @ '' or higher required'')))
   \<and> (role actor = ADMIN \<longrightarrow> require_role_or_higher required actor = Inr actor)
   \<and> (role actor = USER \<longrightarrow>
        create_new_user get_password_hash db user actor
          = (Inl (HTTPException 403 ''Role MANAGER or higher required''), db)
        \<and> get_user_info db user_id actor
          = Inl (HTTPException 403 ''Role MANAGER or higher required'')
        \<and> update_user_role_endpoint db user_id new_role' actor
          = (Inl (HTTPException 403 ''Role MANAGER or higher required''), db)
        \<and> list_users db actor
          = Inl (HTTPException 403 ''Role MANAGER or higher required''))"
proof -
  have ranks: "dict_get role_hierarchy USER 0 = 1" "dict_get role_hierarchy MANAGER 0 = 2"
    "dict_get role_hierarchy ADMIN 0 = 3"
    by (simp_all add: rank_is_rank_spec)
  have floor: "require_role_or_higher required actor =
       (if meetsFloor_spec (role actor) required then Inr actor
        else Inl (HTTPException 403 (''Role '' @ role_str required @ '' or higher required'')))"
    by (simp add: require_role_or_higher_def rank_is_rank_spec meetsFloor_spec_def not_less)
  have admin: "role actor = ADMIN \<longrightarrow> require_role_or_higher required actor = Inr actor"
    unfolding floor by (cases required) (simp_all add: meetsFloor_spec_def)
  have user: "role actor = USER \<longrightarrow>
        create_new_user get_password_hash db user actor
          = (Inl (HTTPException 403 ''Role MANAGER or higher required''), db)
        \<and> get_user_info db user_id actor
          = Inl (HTTPException 403 ''Role MANAGER or higher required'')
        \<and> update_user_role_endpoint db user_id new_role' actor
          = (Inl (HTTPException 403 ''Role MANAGER or higher required''), db)
        \<and> list_users db actor
          = Inl (HTTPException 403 ''Role MANAGER or higher required'')"
    by (simp add: create_new_user_def get_user_info_def update_user_role_endpoint_def
        list_users_def floor_manager)
  from ranks floor admin user show ?thesis by blast
qed

theorem require_role_or_higher_is_meetsFloor_witness:
  "role admin1 = ADMIN
   \<and> require_role_or_higher ADMIN admin1 = Inr admin1
   \<and> require_role_or_higher MANAGER manager1 = Inr manager1
   \<and> require_role_or_higher ADMIN manager1
       = Inl (HTTPException 403 ''Role ADMIN or higher required'')
   \<and> role user1 = USER
   \<and> create_new_user (\<lambda>p. p) demo_db
        \<lparr>new_username = ''user3'', new_role = USER, new_department_id = 1,
         new_password = ''password''\<rparr> user1
       = (Inl (HTTPException 403 ''Role MANAGER or higher required''), demo_db)
   \<and> get_user_info demo_db 4 user1 = Inl (HTTPException 403 ''Role MANAGER or higher required'')
   \<and> update_user_role_endpoint demo_db 4 USER user1
       = (Inl (HTTPException 403 ''Role MANAGER or higher required''), demo_db)
   \<and> list_users demo_db user1 = Inl (HTTPException 403 ''Role MANAGER or higher required'')"
proof -
  have r: "role admin1 = ADMIN" "role user1 = USER" "role manager1 = MANAGER"
    by (simp_all add: demo_defs)
  have a: "require_role_or_higher ADMIN admin1 = Inr admin1"
    using require_role_or_higher_is_meetsFloor [of ADMIN admin1] r
    by (simp add: meetsFloor_spec_def)
  have b: "require_role_or_higher MANAGER manager1 = Inr manager1"
    using require_role_or_higher_is_meetsFloor [of MANAGER manager1] r
    by (simp add: meetsFloor_spec_def)
  have c: "require_role_or_higher ADMIN manager1
       = Inl (HTTPException 403 ''Role ADMIN or higher required'')"
    using require_role_or_higher_is_meetsFloor [of ADMIN manager1] r
    by (simp add: meetsFloor_spec_def)
  note t = require_role_or_higher_is_meetsFloor [of MANAGER user1 "\<lambda>p. p" demo_db
      "\<lparr>new_username = ''user3'', new_role = USER, new_department_id = 1,
         new_password = ''password''\<rparr>" 4 USER]
  from r a b c t show ?thesis by simp
qed

section \<open>Creating a user\<close>

text \<open>
  Claim C8. For every actor that passes the MANAGER floor (a MANAGER or an ADMIN), every
  request body and every database, \<open>create_new_user\<close> ends in NameError for
  \<open>get_user_by_username\<close>, a name the router module never binds: no answer about the
  username, no role-ceiling decision and no new user come out of it, and the database is
  unchanged.
\<close>

theorem create_new_user_name_error:
  "''get_user_by_username'' \<notin> set users_router_globals
   \<and> (require_role_or_higher MANAGER actor = Inr actor \<longrightarrow>
        create_new_user get_password_hash db user actor
          = (Inl (NameError ''get_user_by_username''), db))
   \<and> ((role actor = MANAGER \<or> role actor = ADMIN) \<longrightarrow>
        create_new_user get_password_hash db user actor
          = (Inl (NameError ''get_user_by_username''), db))
   \<and> (\<forall>new_user db'. create_new_user get_password_hash db user actor \<noteq> (Inr new_user, db'))
   \<and> snd (create_new_user get_password_hash db user actor) = db"
proof -
  have unbound: "''get_user_by_username'' \<notin> set users_router_globals"
    by (simp add: users_router_globals_def)
  then have load: "load_global ''get_user_by_username'' = Inl (NameError ''get_user_by_username'')"
    by (simp add: load_global_def)
  have res: "create_new_user get_password_hash db user actor =
               (if role actor = USER
                then (Inl (HTTPException 403 ''Role MANAGER or higher required''), db)
                else (Inl (NameError ''get_user_by_username''), db))"
    by (simp add: create_new_user_def floor_manager load)
  have passed: "require_role_or_higher MANAGER actor = Inr actor \<longrightarrow>
        create_new_user get_password_hash db user actor
          = (Inl (NameError ''get_user_by_username''), db)"
    unfolding res by (simp add: floor_manager)
  have roles: "(role actor = MANAGER \<or> role actor = ADMIN) \<longrightarrow>
        create_new_user get_password_hash db user actor
          = (Inl (NameError ''get_user_by_username''), db)"
    unfolding res by auto
  have never: "\<forall>new_user db'. create_new_user get_password_hash db user actor \<noteq> (Inr new_user, db')"
    unfolding res by simp
  have same: "snd (create_new_user get_password_hash db user actor) = db"
    unfolding res by simp
  from unbound passed roles never same show ?thesis by blast
qed

theorem create_new_user_name_error_witness:
  "require_role_or_higher MANAGER manager1 = Inr manager1
   \<and> role manager1 = MANAGER
   \<and> get_user_by_username demo_db ''user3'' = None
   \<and> create_new_user (\<lambda>p. p) demo_db
        \<lparr>new_username = ''user3'', new_role = USER, new_department_id = 1,
         new_password = ''password''\<rparr> manager1
       = (Inl (NameError ''get_user_by_username''), demo_db)
   \<and> role admin1 = ADMIN
   \<and> create_new_user (\<lambda>p. p) demo_db
        \<lparr>new_username = ''user3'', new_role = ADMIN, new_department_id = 2,
         new_password = ''password''\<rparr> admin1
       = (Inl (NameError ''get_user_by_username''), demo_db)"
proof -
  have r: "role manager1 = MANAGER" "role admin1 = ADMIN"
    by (simp_all add: demo_defs)
  have fl: "require_role_or_higher MANAGER manager1 = Inr manager1"
    by (simp add: floor_manager r)
  have fresh: "get_user_by_username demo_db ''user3'' = None"
    by (simp add: get_user_by_username_def demo_defs)
  note m = create_new_user_name_error [of manager1 "\<lambda>p. p" demo_db
      "\<lparr>new_username = ''user3'', new_role = USER, new_department_id = 1,
         new_password = ''password''\<rparr>"]
  note a = create_new_user_name_error [of admin1 "\<lambda>p. p" demo_db
      "\<lparr>new_username = ''user3'', new_role = ADMIN, new_department_id = 2,
         new_password = ''password''\<rparr>"]
  from r fl fresh m a show ?thesis by simp
qed

section \<open>Changing a user's role\<close>

text \<open>
  Claim C5. \<open>update_user_role_endpoint\<close> on a target user that exists: an ADMIN may set
  any new role, and the target's row then carries it; a MANAGER succeeds exactly when the
  target is of the manager's department and the new role is USER; a target of another
  department gives 403 "Can only update users from your department" (the
  Forbidden-Department deny), and a target of the manager's department with a new role
  other than USER gives 403 "MANAGER role can only change users to USER role" (the
  Forbidden-RoleCeiling deny). A denied request leaves the database unchanged.
\<close>

theorem update_user_role_endpoint_decision:
  "\<forall>target. get_user_by_id db user_id = Some target \<longrightarrow>
     (role actor = ADMIN \<longrightarrow>
        update_user_role_endpoint db user_id new_role' actor
          = (Inr (target\<lparr>role := new_role'\<rparr>),
             db\<lparr>users := update_first (\<lambda>u. uid u = user_id) (\<lambda>u. u\<lparr>role := new_role'\<rparr>)
                             (users db)\<rparr>))
     \<and> (role actor = MANAGER \<longrightarrow>
          (\<not> isl (fst (update_user_role_endpoint db user_id new_role' actor))
             = (department_id target = department_id actor \<and> new_role' = USER))
          \<and> (department_id target = department_id actor \<and> new_role' = USER \<longrightarrow>
               update_user_role_endpoint db user_id new_role' actor
                 = (Inr (target\<lparr>role := USER\<rparr>),
                    db\<lparr>users := update_first (\<lambda>u. uid u = user_id) (\<lambda>u. u\<lparr>role := USER\<rparr>)
                                    (users db)\<rparr>))
          \<and> (department_id target \<noteq> department_id actor \<longrightarrow>
               update_user_role_endpoint db user_id new_role' actor
                 = (Inl (HTTPException 403 ''Can only update users from your department''), db))
          \<and> (department_id target = department_id actor \<and> new_role' \<noteq> USER \<longrightarrow>
               update_user_role_endpoint db user_id new_role' actor
                 = (Inl (HTTPException 403 ''MANAGER role can only change users to USER role''),
                    db)))"
proof (intro allI impI)
  fix target
  assume found: "get_user_by_id db user_id = Some target"
  then have found': "find (\<lambda>u. uid u = user_id) (users db) = Some target"
    by (simp add: get_user_by_id_def)
  have upd: "update_user_role db user_id r
               = (Some (target\<lparr>role := r\<rparr>),
                  db\<lparr>users := update_first (\<lambda>u. uid u = user_id) (\<lambda>u. u\<lparr>role := r\<rparr>)
                                  (users db)\<rparr>)" for r
    by (simp add: update_user_role_def found')
  have admin: "role actor = ADMIN \<longrightarrow>
        update_user_role_endpoint db user_id new_role' actor
          = (Inr (target\<lparr>role := new_role'\<rparr>),
             db\<lparr>users := update_first (\<lambda>u. uid u = user_id) (\<lambda>u. u\<lparr>role := new_role'\<rparr>)
                             (users db)\<rparr>)"
    by (simp add: update_user_role_endpoint_def floor_manager found upd)
  have manager: "role actor = MANAGER \<Longrightarrow>
        update_user_role_endpoint db user_id new_role' actor =
          (if department_id target \<noteq> department_id actor
           then (Inl (HTTPException 403 ''Can only update users from your department''), db)
           else if new_role' \<noteq> USER
           then (Inl (HTTPException 403 ''MANAGER role can only change users to USER role''), db)
           else (Inr (target\<lparr>role := USER\<rparr>),
                 db\<lparr>users := update_first (\<lambda>u. uid u = user_id) (\<lambda>u. u\<lparr>role := USER\<rparr>)
                                 (users db)\<rparr>))"
    by (simp add: update_user_role_endpoint_def floor_manager found upd)
  have mgr: "role actor = MANAGER \<longrightarrow>
          (\<not> isl (fst (update_user_role_endpoint db user_id new_role' actor))
             = (department_id target = department_id actor \<and> new_role' = USER))
          \<and> (department_id target = department_id actor \<and> new_role' = USER \<longrightarrow>
               update_user_role_endpoint db user_id new_role' actor
                 = (Inr (target\<lparr>role := USER\<rparr>),
                    db\<lparr>users := update_first (\<lambda>u. uid u = user_id) (\<lambda>u. u\<lparr>role := USER\<rparr>)
                                    (users db)\<rparr>))
          \<and> (department_id target \<noteq> department_id actor \<longrightarrow>
               update_user_role_endpoint db user_id new_role' actor
                 = (Inl (HTTPException 403 ''Can only update users from your department''), db))
          \<and> (department_id target = department_id actor \<and> new_role' \<noteq> USER \<longrightarrow>
               update_user_role_endpoint db user_id new_role' actor
                 = (Inl (HTTPException 403 ''MANAGER role can only change users to USER role''),
                    db))"
  proof
    assume m: "role actor = MANAGER"
    show "(\<not> isl (fst (update_user_role_endpoint db user_id new_role' actor))
             = (department_id target = department_id actor \<and> new_role' = USER))
          \<and> (department_id target = department_id actor \<and> new_role' = USER \<longrightarrow>
               update_user_role_endpoint db user_id new_role' actor
                 = (Inr (target\<lparr>role := USER\<rparr>),
                    db\<lparr>users := update_first (\<lambda>u. uid u = user_id) (\<lambda>u. u\<lparr>role := USER\<rparr>)
                                    (users db)\<rparr>))
          \<and> (department_id target \<noteq> department_id actor \<longrightarrow>
               update_user_role_endpoint db user_id new_role' actor
                 = (Inl (HTTPException 403 ''Can only update users from your department''), db))
          \<and> (department_id target = department_id actor \<and> new_role' \<noteq> USER \<longrightarrow>
               update_user_role_endpoint db user_id new_role' actor
                 = (Inl (HTTPException 403 ''MANAGER role can only change users to USER role''),
                    db))"
      unfolding manager [OF m] by simp
  qed
  from admin mgr
  show "(role actor = ADMIN \<longrightarrow>
        update_user_role_endpoint db user_id new_role' actor
          = (Inr (target\<lparr>role := new_role'\<rparr>),
             db\<lparr>users := update_first (\<lambda>u. uid u = user_id) (\<lambda>u. u\<lparr>role := new_role'\<rparr>)
                             (users db)\<rparr>))
     \<and> (role actor = MANAGER \<longrightarrow>
          (\<not> isl (fst (update_user_role_endpoint db user_id new_role' actor))
             = (department_id target = department_id actor \<and> new_role' = USER))
          \<and> (department_id target = department_id actor \<and> new_role' = USER \<longrightarrow>
               update_user_role_endpoint db user_id new_role' actor
                 = (Inr (target\<lparr>role := USER\<rparr>),
                    db\<lparr>users := update_first (\<lambda>u. uid u = user_id) (\<lambda>u. u\<lparr>role := USER\<rparr>)
                                    (users db)\<rparr>))
          \<and> (department_id target \<noteq> department_id actor \<longrightarrow>
               update_user_role_endpoint db user_id new_role' actor
                 = (Inl (HTTPException 403 ''Can only update users from your department''), db))
          \<and> (department_id target = department_id actor \<and> new_role' \<noteq> USER \<longrightarrow>
               update_user_role_endpoint db user_id new_role' actor
                 = (Inl (HTTPException 403 ''MANAGER role can only change users to USER role''),
                    db)))"
    by blast
qed

theorem update_user_role_endpoint_decision_witness:
  "get_user_by_id demo_db 1 = Some user1
   \<and> get_user_by_id demo_db 4 = Some user2
   \<and> role admin1 = ADMIN
   \<and> update_user_role_endpoint demo_db 4 ADMIN admin1
       = (Inr (user2\<lparr>role := ADMIN\<rparr>),
          demo_db\<lparr>users := [user1, manager1, admin1, user2\<lparr>role := ADMIN\<rparr>]\<rparr>)
   \<and> role manager1 = MANAGER
   \<and> department_id user1 = department_id manager1
   \<and> update_user_role_endpoint demo_db 1 USER manager1
       = (Inr (user1\<lparr>role := USER\<rparr>),
          demo_db\<lparr>users := [user1\<lparr>role := USER\<rparr>, manager1, admin1, user2]\<rparr>)
   \<and> update_user_role_endpoint demo_db 1 MANAGER manager1
       = (Inl (HTTPException 403 ''MANAGER role can only change users to USER role''), demo_db)
   \<and> department_id user2 \<noteq> department_id manager1
   \<and> update_user_role_endpoint demo_db 4 USER manager1
       = (Inl (HTTPException 403 ''Can only update users from your department''), demo_db)"
proof -
  have u1: "get_user_by_id demo_db 1 = Some user1"
    by (simp add: get_user_by_id_def demo_defs)
  have u4: "get_user_by_id demo_db 4 = Some user2"
    by (simp add: get_user_by_id_def demo_defs)
  have r: "role admin1 = ADMIN" "role manager1 = MANAGER"
    by (simp_all add: demo_defs)
  have d: "department_id user1 = department_id manager1"
    "department_id user2 \<noteq> department_id manager1"
    by (simp_all add: demo_defs)
  have a: "update_user_role_endpoint demo_db 4 ADMIN admin1
       = (Inr (user2\<lparr>role := ADMIN\<rparr>),
          demo_db\<lparr>users := [user1, manager1, admin1, user2\<lparr>role := ADMIN\<rparr>]\<rparr>)"
    using update_user_role_endpoint_decision [of demo_db 4 admin1 ADMIN] u4 r
    by (simp add: demo_defs)
  have b: "update_user_role_endpoint demo_db 1 USER manager1
       = (Inr (user1\<lparr>role := USER\<rparr>),
          demo_db\<lparr>users := [user1\<lparr>role := USER\<rparr>, manager1, admin1, user2]\<rparr>)"
    using update_user_role_endpoint_decision [of demo_db 1 manager1 USER] u1 r d
    by (simp add: demo_defs)
  have c: "update_user_role_endpoint demo_db 1 MANAGER manager1
       = (Inl (HTTPException 403 ''MANAGER role can only change users to USER role''), demo_db)"
    using update_user_role_endpoint_decision [of demo_db 1 manager1 MANAGER] u1 r d by simp
  have e: "update_user_role_endpoint demo_db 4 USER manager1
       = (Inl (HTTPException 403 ''Can only update users from your department''), demo_db)"
    using update_user_role_endpoint_decision [of demo_db 4 manager1 USER] u4 r d by simp
  from u1 u4 r d a b c e show ?thesis by simp
qed

section \<open>Absent targets\<close>

text \<open>
  Claim C6 as the code has it. A denied request carries one exception, hence one reason.
  For the two file checks an absent file gives 404 "File not found" for every actor,
  before any role is looked at. For the two user operations with a target (view user,
  change role) the role floor is a dependency of the endpoint and runs before the body:
  a USER-role actor gets 403 "Role MANAGER or higher required" whether or not the target
  exists, and a MANAGER or ADMIN gets 404 "User not found" for an absent target, before
  the department and role-ceiling checks. The last four conjuncts list, per operation,
  every exception it can return.
\<close>

theorem not_found_precedence:
  "(get_file_by_id db file_id = None \<longrightarrow>
      can_access_file db file_id actor = Inl (HTTPException 404 ''File not found'')
      \<and> can_delete_file db file_id actor = Inl (HTTPException 404 ''File not found''))
   \<and> (get_user_by_id db user_id = None \<longrightarrow>
        get_user_info db user_id actor =
          (if role actor = USER then Inl (HTTPException 403 ''Role MANAGER or higher required'')
           else Inl (HTTPException 404 ''User not found''))
        \<and> update_user_role_endpoint db user_id new_role' actor =
          (if role actor = USER
           then (Inl (HTTPException 403 ''Role MANAGER or higher required''), db)
           else (Inl (HTTPException 404 ''User not found''), db)))
   \<and> (role actor = USER \<longrightarrow>
        get_user_info db user_id actor
          = Inl (HTTPException 403 ''Role MANAGER or higher required'')
        \<and> update_user_role_endpoint db user_id new_role' actor
          = (Inl (HTTPException 403 ''Role MANAGER or higher required''), db))
   \<and> (\<forall>e. can_access_file db file_id actor = Inl e \<longrightarrow>
          e = HTTPException 404 ''File not found''
          \<or> e = HTTPException 403 ''Access denied to this file'')
   \<and> (\<forall>e. can_delete_file db file_id actor = Inl e \<longrightarrow>
          e = HTTPException 404 ''File not found''
          \<or> e = HTTPException 403 ''Can only delete files from your department''
          \<or> e = HTTPException 403 ''Can only delete your own files'')
   \<and> (\<forall>e. get_user_info db user_id actor = Inl e \<longrightarrow>
          e = HTTPException 403 ''Role MANAGER or higher required''
          \<or> e = HTTPException 404 ''User not found''
          \<or> e = HTTPException 403 ''Can only view users from your department'')
   \<and> (\<forall>e. fst (update_user_role_endpoint db user_id new_role' actor) = Inl e \<longrightarrow>
          e = HTTPException 403 ''Role MANAGER or higher required''
          \<or> e = HTTPException 404 ''User not found''
          \<or> e = HTTPException 403 ''Can only update users from your department''
          \<or> e = HTTPException 403 ''MANAGER role can only change users to USER role'')"
proof -
  have files_absent: "get_file_by_id db file_id = None \<longrightarrow>
      can_access_file db file_id actor = Inl (HTTPException 404 ''File not found'')
      \<and> can_delete_file db file_id actor = Inl (HTTPException 404 ''File not found'')"
    by (simp add: can_access_file_def can_delete_file_def)
  have users_absent: "get_user_by_id db user_id = None \<longrightarrow>
        get_user_info db user_id actor =
          (if role actor = USER then Inl (HTTPException 403 ''Role MANAGER or higher required'')
           else Inl (HTTPException 404 ''User not found''))
        \<and> update_user_role_endpoint db user_id new_role' actor =
          (if role actor = USER
           then (Inl (HTTPException 403 ''Role MANAGER or higher required''), db)
           else (Inl (HTTPException 404 ''User not found''), db))"
    by (simp add: get_user_info_def update_user_role_endpoint_def floor_manager)
  have user_floor: "role actor = USER \<longrightarrow>
        get_user_info db user_id actor
          = Inl (HTTPException 403 ''Role MANAGER or higher required'')
        \<and> update_user_role_endpoint db user_id new_role' actor
          = (Inl (HTTPException 403 ''Role MANAGER or higher required''), db)"
    by (simp add: get_user_info_def update_user_role_endpoint_def floor_manager)
  have access: "\<forall>e. can_access_file db file_id actor = Inl e \<longrightarrow>
          e = HTTPException 404 ''File not found''
          \<or> e = HTTPException 403 ''Access denied to this file''"
    by (auto simp add: can_access_file_def split: option.splits if_splits)
  have delete: "\<forall>e. can_delete_file db file_id actor = Inl e \<longrightarrow>
          e = HTTPException 404 ''File not found''
          \<or> e = HTTPException 403 ''Can only delete files from your department''
          \<or> e = HTTPException 403 ''Can only delete your own files''"
    by (auto simp add: can_delete_file_def split: option.splits if_splits)
  have view: "\<forall>e. get_user_info db user_id actor = Inl e \<longrightarrow>
          e = HTTPException 403 ''Role MANAGER or higher required''
          \<or> e = HTTPException 404 ''User not found''
          \<or> e = HTTPException 403 ''Can only view users from your department''"
    by (auto simp add: get_user_info_def floor_manager split: option.splits if_splits)
  have change: "\<forall>e. fst (update_user_role_endpoint db user_id new_role' actor) = Inl e \<longrightarrow>
          e = HTTPException 403 ''Role MANAGER or higher required''
          \<or> e = HTTPException 404 ''User not found''
          \<or> e = HTTPException 403 ''Can only update users from your department''
          \<or> e = HTTPException 403 ''MANAGER role can only change users to USER role''"
  proof (cases "get_user_by_id db user_id")
    case None
    then show ?thesis
      by (auto simp add: update_user_role_endpoint_def floor_manager split: if_splits)
  next
    case (Some target)
    then have "update_user_role db user_id new_role'
                 = (Some (target\<lparr>role := new_role'\<rparr>),
                    db\<lparr>users := update_first (\<lambda>u. uid u = user_id)
                                    (\<lambda>u. u\<lparr>role := new_role'\<rparr>) (users db)\<rparr>)"
      by (simp add: update_user_role_def get_user_by_id_def)
    with Some show ?thesis
      by (auto simp add: update_user_role_endpoint_def floor_manager split: if_splits)
  qed
  from files_absent users_absent user_floor access delete view change show ?thesis by blast
qed

theorem not_found_precedence_witness:
  "get_file_by_id demo_db 99 = None
   \<and> can_access_file demo_db 99 user1 = Inl (HTTPException 404 ''File not found'')
   \<and> can_delete_file demo_db 99 user1 = Inl (HTTPException 404 ''File not found'')
   \<and> get_user_by_id demo_db 99 = None
   \<and> get_user_info demo_db 99 manager1 = Inl (HTTPException 404 ''User not found'')
   \<and> update_user_role_endpoint demo_db 99 ADMIN manager1
       = (Inl (HTTPException 404 ''User not found''), demo_db)
   \<and> get_user_info demo_db 99 user2 = Inl (HTTPException 403 ''Role MANAGER or higher required'')
   \<and> get_user_by_id demo_db 4 = Some user2
   \<and> get_user_info demo_db 4 user1 = Inl (HTTPException 403 ''Role MANAGER or higher required'')"
proof -
  have f: "get_file_by_id demo_db 99 = None"
    by (simp add: get_file_by_id_def demo_defs)
  have u: "get_user_by_id demo_db 99 = None"
    by (simp add: get_user_by_id_def demo_defs)
  have r: "role manager1 = MANAGER" "role user1 = USER" "role user2 = USER"
    by (simp_all add: demo_defs)
  note a = not_found_precedence [of demo_db 99 user1 99 ADMIN]
  note b = not_found_precedence [of demo_db 99 manager1 99 ADMIN]
  note c = not_found_precedence [of demo_db 99 user2 99 ADMIN]
  note d = not_found_precedence [of demo_db 99 user1 4 ADMIN]
  have u4: "get_user_by_id demo_db 4 = Some user2"
    by (simp add: get_user_by_id_def demo_defs)
  from f u u4 r a b c d show ?thesis by simp
qed

text \<open>
  The claim as written fails for the user operations: a USER-role actor asking for a user
  id that no row has is answered with the role-floor 403, not with 404.
\<close>

theorem absent_user_role_floor_first:
  "role user1 = USER
   \<and> get_user_by_id demo_db 99 = None
   \<and> get_user_info demo_db 99 user1 = Inl (HTTPException 403 ''Role MANAGER or higher required'')
   \<and> get_user_info demo_db 99 user1 \<noteq> Inl (HTTPException 404 ''User not found'')
   \<and> update_user_role_endpoint demo_db 99 USER user1
       = (Inl (HTTPException 403 ''Role MANAGER or higher required''), demo_db)"
proof -
  have r: "role user1 = USER"
    by (simp add: demo_defs)
  have u: "get_user_by_id demo_db 99 = None"
    by (simp add: get_user_by_id_def demo_defs)
  have v: "get_user_info demo_db 99 user1
             = Inl (HTTPException 403 ''Role MANAGER or higher required'')"
    by (simp add: get_user_info_def floor_manager r)
  have c: "update_user_role_endpoint demo_db 99 USER user1
       = (Inl (HTTPException 403 ''Role MANAGER or higher required''), demo_db)"
    by (simp add: update_user_role_endpoint_def floor_manager r)
  from r u v c show ?thesis by simp
qed

section \<open>The download counter\<close>

text \<open>
  Claim C10. \<open>increment_download_count\<close>: when no row has the given id it returns False
  and the database it leaves is the one it was given. When a row has the id it returns
  True, and the database it leaves differs from the given one in that row only, and in
  that row only by \<open>downloads_count\<close> being one higher: the rows before and after it, the
  row's other fields and the users table are the same. Looking the id up afterwards gives
  the row with the raised counter. (Each call is one transition of the database; the model
  is sequential.)
\<close>

theorem increment_download_count_frame:
  "(get_file_by_id db file_id = None \<longrightarrow> increment_download_count db file_id = (False, db))
   \<and> (\<forall>file. get_file_by_id db file_id = Some file \<longrightarrow>
         (\<exists>pre post.
            files db = pre @ file # post
            \<and> (\<forall>g\<in>set pre. fid g \<noteq> file_id)
            \<and> increment_download_count db file_id
                = (True,
                   db\<lparr>files := pre @ file\<lparr>downloads_count := downloads_count file + 1\<rparr> # post\<rparr>))
         \<and> fst (increment_download_count db file_id) = True
         \<and> users (snd (increment_download_count db file_id)) = users db
         \<and> length (files (snd (increment_download_count db file_id))) = length (files db)
         \<and> get_file_by_id (snd (increment_download_count db file_id)) file_id
             = Some (file\<lparr>downloads_count := downloads_count file + 1\<rparr>))"
proof (intro conjI allI impI)
  assume "get_file_by_id db file_id = None"
  then show "increment_download_count db file_id = (False, db)"
    by (simp add: increment_download_count_def get_file_by_id_def)
next
  fix row
  assume found: "get_file_by_id db file_id = Some row"
  then have found': "find (\<lambda>f. fid f = file_id) (files db) = Some row"
    by (simp add: get_file_by_id_def)
  then obtain pre post where
    split: "files db = pre @ row # post" and
    key: "fid row = file_id" and
    before: "\<forall>g\<in>set pre. fid g \<noteq> file_id"
    using find_split [of "\<lambda>f. fid f = file_id" "files db" row] by blast
  let ?bumped = "row\<lparr>downloads_count := downloads_count row + 1\<rparr>"
  have upd: "update_first (\<lambda>f. fid f = file_id)
               (\<lambda>f. f\<lparr>downloads_count := downloads_count f + 1\<rparr>) (files db)
             = pre @ ?bumped # post"
    unfolding split using before key by (simp add: update_first_split)
  have res: "increment_download_count db file_id = (True, db\<lparr>files := pre @ ?bumped # post\<rparr>)"
    by (simp add: increment_download_count_def found' upd)
  from split before res
  show "\<exists>pre post.
            files db = pre @ row # post
            \<and> (\<forall>g\<in>set pre. fid g \<noteq> file_id)
            \<and> increment_download_count db file_id
                = (True,
                   db\<lparr>files := pre @ row\<lparr>downloads_count := downloads_count row + 1\<rparr> # post\<rparr>)"
    by blast
  show "fst (increment_download_count db file_id) = True"
    by (simp add: res)
  show "users (snd (increment_download_count db file_id)) = users db"
    by (simp add: res)
  show "length (files (snd (increment_download_count db file_id))) = length (files db)"
    by (simp add: res split)
  have "find (\<lambda>f. fid f = file_id) (pre @ ?bumped # post) = Some ?bumped"
    using before key by (induction pre) simp_all
  then show "get_file_by_id (snd (increment_download_count db file_id)) file_id = Some ?bumped"
    by (simp add: res get_file_by_id_def)
qed

theorem increment_download_count_frame_witness:
  "get_file_by_id demo_db 99 = None
   \<and> increment_download_count demo_db 99 = (False, demo_db)
   \<and> get_file_by_id demo_db 12 = Some (mk_file 12 4 2 PUBLIC)
   \<and> increment_download_count demo_db 12
       = (True,
          demo_db\<lparr>files :=
            [mk_file 10 4 2 DEPARTMENT,
             mk_file 11 1 1 PRIVATE,
             (mk_file 12 4 2 PUBLIC)\<lparr>downloads_count := 1\<rparr>,
             mk_file 13 4 2 PRIVATE,
             mk_file 14 2 1 DEPARTMENT]\<rparr>)
   \<and> users (snd (increment_download_count demo_db 12)) = users demo_db
   \<and> get_file_by_id (snd (increment_download_count demo_db 12)) 12
       = Some ((mk_file 12 4 2 PUBLIC)\<lparr>downloads_count := 1\<rparr>)"
proof -
  have absent: "get_file_by_id demo_db 99 = None"
    by (simp add: get_file_by_id_def demo_defs)
  have f12: "get_file_by_id demo_db 12 = Some (mk_file 12 4 2 PUBLIC)"
    by (simp add: get_file_by_id_def demo_defs)
  have n: "downloads_count (mk_file 12 4 2 PUBLIC) + 1 = 1"
    by (simp add: mk_file_def)
  have run: "increment_download_count demo_db 12
       = (True,
          demo_db\<lparr>files :=
            [mk_file 10 4 2 DEPARTMENT,
             mk_file 11 1 1 PRIVATE,
             (mk_file 12 4 2 PUBLIC)\<lparr>downloads_count := 1\<rparr>,
             mk_file 13 4 2 PRIVATE,
             mk_file 14 2 1 DEPARTMENT]\<rparr>)"
    by (simp add: increment_download_count_def demo_defs)
  note a = increment_download_count_frame [of demo_db 99]
  note b = increment_download_count_frame [of demo_db 12]
  from absent a have a': "increment_download_count demo_db 99 = (False, demo_db)"
    by simp
  from f12 b n have b': "users (snd (increment_download_count demo_db 12)) = users demo_db"
    "get_file_by_id (snd (increment_download_count demo_db 12)) 12
       = Some ((mk_file 12 4 2 PUBLIC)\<lparr>downloads_count := 1\<rparr>)"
    by simp_all
  from absent f12 run a' b' show ?thesis by simp
qed

section \<open>Uploading a file\<close>

text \<open>
  The visibility rule of \<open>upload_file\<close> on its own (lines 68-73): for a USER-role actor
  it passes exactly when the requested visibility is PRIVATE, and DEPARTMENT and PUBLIC are
  refused with 403 "USER role can only create PRIVATE files" (the Forbidden-Visibility
  deny); for a MANAGER or an ADMIN it passes for every visibility. In the endpoint: a USER
  upload that has passed the size and the type check is refused with that 403 when the
  visibility is not PRIVATE and goes on to be stored when it is; and no upload by a
  MANAGER or an ADMIN is ever answered with that 403.
\<close>

lemma upload_visibility_rule:
  "(role actor = USER \<longrightarrow>
      (check_visibility vis actor = Inr ()) = (vis = PRIVATE)
      \<and> (vis \<noteq> PRIVATE \<longrightarrow>
           check_visibility vis actor
             = Inl (HTTPException 403 ''USER role can only create PRIVATE files''))
      \<and> (check_file_size file actor = Inr () \<and> check_file_type file actor = Inr () \<longrightarrow>
           upload_file env db file vis actor =
             (if vis = PRIVATE then store_upload env db file PRIVATE actor
              else (Inl (HTTPException 403 ''USER role can only create PRIVATE files''), db))))
   \<and> ((role actor = MANAGER \<or> role actor = ADMIN) \<longrightarrow>
        check_visibility vis actor = Inr ()
        \<and> fst (upload_file env db file vis actor)
            \<noteq> Inl (HTTPException 403 ''USER role can only create PRIVATE files''))"
proof -
  have user_rule: "role actor = USER \<longrightarrow>
      (check_visibility vis actor = Inr ()) = (vis = PRIVATE)
      \<and> (vis \<noteq> PRIVATE \<longrightarrow>
           check_visibility vis actor
             = Inl (HTTPException 403 ''USER role can only create PRIVATE files''))"
    by (simp add: check_visibility_def)
  have user_endpoint: "role actor = USER \<longrightarrow>
      (check_file_size file actor = Inr () \<and> check_file_type file actor = Inr () \<longrightarrow>
           upload_file env db file vis actor =
             (if vis = PRIVATE then store_upload env db file PRIVATE actor
              else (Inl (HTTPException 403 ''USER role can only create PRIVATE files''), db)))"
    by (simp add: upload_file_def check_visibility_def)
  have other_rule: "(role actor = MANAGER \<or> role actor = ADMIN) \<longrightarrow>
        check_visibility vis actor = Inr ()"
    by (auto simp add: check_visibility_def)
  have type_manager: "role actor = MANAGER \<Longrightarrow>
      check_file_type file actor = Inl (AttributeError ''ALLOWED_FILE_TYPES_MANAGER'')"
    by (simp add: check_file_type_def settings_attr_def Settings_list_attributes_def)
  have type_admin: "role actor = ADMIN \<Longrightarrow>
      check_file_type file actor = Inl (AttributeError ''ALLOWED_FILE_TYPES_ADMIN'')"
    by (simp add: check_file_type_def settings_attr_def Settings_list_attributes_def)
  have size_cases: "check_file_size file actor = Inr ()
      \<or> check_file_size file actor
          = Inl (HTTPException 413 ''File size exceeds maximum allowed size for your role'')"
    by (simp add: check_file_size_def Let_def)
  have other_endpoint: "(role actor = MANAGER \<or> role actor = ADMIN) \<longrightarrow>
        fst (upload_file env db file vis actor)
            \<noteq> Inl (HTTPException 403 ''USER role can only create PRIVATE files'')"
    using size_cases type_manager type_admin by (auto simp add: upload_file_def)
  from user_rule user_endpoint other_rule other_endpoint show ?thesis by blast
qed

lemma upload_visibility_rule_witness:
  "role user1 = USER
   \<and> check_file_size (demo_upload ''report.PDF'' 3) user1 = Inr ()
   \<and> check_file_type (demo_upload ''report.PDF'' 3) user1 = Inr ()
   \<and> check_visibility PRIVATE user1 = Inr ()
   \<and> upload_file demo_env demo_db (demo_upload ''report.PDF'' 3) PUBLIC user1
       = (Inl (HTTPException 403 ''USER role can only create PRIVATE files''), demo_db)
   \<and> upload_file demo_env demo_db (demo_upload ''report.PDF'' 3) DEPARTMENT user1
       = (Inl (HTTPException 403 ''USER role can only create PRIVATE files''), demo_db)
   \<and> upload_file demo_env demo_db (demo_upload ''report.PDF'' 3) PRIVATE user1
       = (Inr \<lparr>fid = 15, owner_id = 1, file_department_id = 1, visibility = PRIVATE,
               file_path = ''/app/uploads/0f8fad5b-d9cb-469f-a165-70867728950e.PDF'',
               filename = ''report.PDF'', file_size = 3, created_at = 7,
               downloads_count = 0\<rparr>,
          demo_db\<lparr>files := demo_files @
            [\<lparr>fid = 15, owner_id = 1, file_department_id = 1, visibility = PRIVATE,
              file_path = ''/app/uploads/0f8fad5b-d9cb-469f-a165-70867728950e.PDF'',
              filename = ''report.PDF'', file_size = 3, created_at = 7,
              downloads_count = 0\<rparr>]\<rparr>)
   \<and> role manager1 = MANAGER
   \<and> check_visibility PUBLIC manager1 = Inr ()
   \<and> role admin1 = ADMIN
   \<and> check_visibility DEPARTMENT admin1 = Inr ()"
proof -
  have r: "role user1 = USER" "role manager1 = MANAGER" "role admin1 = ADMIN"
    by (simp_all add: demo_defs)
  have sz: "check_file_size (demo_upload ''report.PDF'' 3) user1 = Inr ()"
    by (simp add: check_file_size_def demo_upload_def r MAX_FILE_SIZE_USER_def)
  have ext: "splitext ''report.PDF'' = (''report'', ''.PDF'')"
    by (simp add: splitext_def rfind_def)
  have ty: "check_file_type (demo_upload ''report.PDF'' 3) user1 = Inr ()"
    by (simp add: check_file_type_def demo_upload_def r ext lower_def lower_char_def
        settings_attr_def Settings_list_attributes_def)
  have st: "store_upload demo_env demo_db (demo_upload ''report.PDF'' 3) PRIVATE user1
       = (Inr \<lparr>fid = 15, owner_id = 1, file_department_id = 1, visibility = PRIVATE,
               file_path = ''/app/uploads/0f8fad5b-d9cb-469f-a165-70867728950e.PDF'',
               filename = ''report.PDF'', file_size = 3, created_at = 7,
               downloads_count = 0\<rparr>,
          demo_db\<lparr>files := demo_files @
            [\<lparr>fid = 15, owner_id = 1, file_department_id = 1, visibility = PRIVATE,
              file_path = ''/app/uploads/0f8fad5b-d9cb-469f-a165-70867728950e.PDF'',
              filename = ''report.PDF'', file_size = 3, created_at = 7,
              downloads_count = 0\<rparr>]\<rparr>)"
    by (simp add: store_upload_def demo_upload_def demo_env_def ext os_path_join_def
        UPLOAD_DIR_def create_file_def next_id_def Let_def demo_defs)
  note pub = upload_visibility_rule [of user1 PUBLIC "demo_upload ''report.PDF'' 3" demo_env demo_db]
  note dep = upload_visibility_rule [of user1 DEPARTMENT "demo_upload ''report.PDF'' 3" demo_env demo_db]
  note pri = upload_visibility_rule [of user1 PRIVATE "demo_upload ''report.PDF'' 3" demo_env demo_db]
  note mgr = upload_visibility_rule [of manager1 PUBLIC "demo_upload ''report.PDF'' 3" demo_env demo_db]
  note adm = upload_visibility_rule [of admin1 DEPARTMENT "demo_upload ''report.PDF'' 3" demo_env demo_db]
  from r sz ty pub have a: "upload_file demo_env demo_db (demo_upload ''report.PDF'' 3) PUBLIC user1
       = (Inl (HTTPException 403 ''USER role can only create PRIVATE files''), demo_db)"
    by simp
  from r sz ty dep have b: "upload_file demo_env demo_db (demo_upload ''report.PDF'' 3) DEPARTMENT user1
       = (Inl (HTTPException 403 ''USER role can only create PRIVATE files''), demo_db)"
    by simp
  from r sz ty pri have c: "upload_file demo_env demo_db (demo_upload ''report.PDF'' 3) PRIVATE user1
       = store_upload demo_env demo_db (demo_upload ''report.PDF'' 3) PRIVATE user1"
    "check_visibility PRIVATE user1 = Inr ()"
    by simp_all
  from r mgr have d: "check_visibility PUBLIC manager1 = Inr ()"
    by simp
  from r adm have e: "check_visibility DEPARTMENT admin1 = Inr ()"
    by simp
  from r sz ty a b c d e st show ?thesis by simp
qed

text \<open>
  Claim C4 against the endpoint. The docstring of \<open>upload_file\<close> says that MANAGER and
  ADMIN roles can create files with any visibility level, and the visibility rule would let
  them: but a MANAGER uploading a three-byte \<open>report.pdf\<close> as PUBLIC, and an ADMIN
  uploading it as DEPARTMENT, pass the size check and then end in AttributeError in the
  extension check, which reads a setting the settings class does not define. Nothing is
  stored and the database is unchanged.
\<close>

theorem manager_admin_create_refused:
  "role manager1 = MANAGER
   \<and> check_file_size (demo_upload ''report.pdf'' 3) manager1 = Inr ()
   \<and> check_visibility PUBLIC manager1 = Inr ()
   \<and> upload_file demo_env demo_db (demo_upload ''report.pdf'' 3) PUBLIC manager1
       = (Inl (AttributeError ''ALLOWED_FILE_TYPES_MANAGER''), demo_db)
   \<and> role admin1 = ADMIN
   \<and> check_file_size (demo_upload ''report.pdf'' 3) admin1 = Inr ()
   \<and> check_visibility DEPARTMENT admin1 = Inr ()
   \<and> upload_file demo_env demo_db (demo_upload ''report.pdf'' 3) DEPARTMENT admin1
       = (Inl (AttributeError ''ALLOWED_FILE_TYPES_ADMIN''), demo_db)"
proof -
  have r: "role manager1 = MANAGER" "role admin1 = ADMIN"
    by (simp_all add: demo_defs)
  have sm: "check_file_size (demo_upload ''report.pdf'' 3) manager1 = Inr ()"
    by (simp add: check_file_size_def demo_upload_def r MAX_FILE_SIZE_MANAGER_def)
  have sa: "check_file_size (demo_upload ''report.pdf'' 3) admin1 = Inr ()"
    by (simp add: check_file_size_def demo_upload_def r MAX_FILE_SIZE_ADMIN_def)
  have tm: "check_file_type (demo_upload ''report.pdf'' 3) manager1
              = Inl (AttributeError ''ALLOWED_FILE_TYPES_MANAGER'')"
    by (simp add: check_file_type_def r settings_attr_def Settings_list_attributes_def)
  have ta: "check_file_type (demo_upload ''report.pdf'' 3) admin1
              = Inl (AttributeError ''ALLOWED_FILE_TYPES_ADMIN'')"
    by (simp add: check_file_type_def r settings_attr_def Settings_list_attributes_def)
  have vm: "check_visibility PUBLIC manager1 = Inr ()"
    by (simp add: check_visibility_def r)
  have va: "check_visibility DEPARTMENT admin1 = Inr ()"
    by (simp add: check_visibility_def r)
  have um: "upload_file demo_env demo_db (demo_upload ''report.pdf'' 3) PUBLIC manager1
       = (Inl (AttributeError ''ALLOWED_FILE_TYPES_MANAGER''), demo_db)"
    by (simp add: upload_file_def sm tm)
  have ua: "upload_file demo_env demo_db (demo_upload ''report.pdf'' 3) DEPARTMENT admin1
       = (Inl (AttributeError ''ALLOWED_FILE_TYPES_ADMIN''), demo_db)"
    by (simp add: upload_file_def sa ta)
  from r sm sa vm va um ua show ?thesis by simp
qed

text \<open>
  Claim C9 as the code has it. The size check comes first: an upload by a MANAGER or an
  ADMIN whose reported size is over the role's limit is refused with 413. Every other
  upload by a MANAGER or an ADMIN ends in AttributeError, for
  \<open>ALLOWED_FILE_TYPES_MANAGER\<close> or \<open>ALLOWED_FILE_TYPES_ADMIN\<close>: of the per-role lists of
  extensions the settings class defines \<open>ALLOWED_FILE_TYPES_USER\<close> only. Either way the
  result does not depend on the requested visibility, nothing is stored and the database is
  unchanged; an upload that succeeds, or that is refused by the visibility rule, is a
  USER's.
\<close>

theorem manager_admin_upload_fails:
  "map fst Settings_list_attributes = [''ALLOWED_FILE_TYPES_USER'']
   \<and> ((role actor = MANAGER \<or> role actor = ADMIN) \<longrightarrow>
        upload_file env db file vis actor =
          (if (case upload_size file of
                 None \<Rightarrow> False
               | Some n \<Rightarrow> n \<noteq> 0 \<and> n > (if role actor = MANAGER then MAX_FILE_SIZE_MANAGER
                                          else MAX_FILE_SIZE_ADMIN))
           then (Inl (HTTPException 413
                        ''File size exceeds maximum allowed size for your role''), db)
           else (Inl (AttributeError (if role actor = MANAGER then ''ALLOWED_FILE_TYPES_MANAGER''
                                      else ''ALLOWED_FILE_TYPES_ADMIN'')), db))
        \<and> upload_file env db file vis actor = upload_file env db file vis' actor)
   \<and> (\<forall>file_record db'. upload_file env db file vis actor = (Inr file_record, db') \<longrightarrow>
          role actor = USER)
   \<and> (fst (upload_file env db file vis actor)
         = Inl (HTTPException 403 ''USER role can only create PRIVATE files'') \<longrightarrow>
          role actor = USER)"
proof -
  have attrs: "map fst Settings_list_attributes = [''ALLOWED_FILE_TYPES_USER'']"
    by (simp add: Settings_list_attributes_def)
  have type_manager: "role actor = MANAGER \<Longrightarrow>
      check_file_type file actor = Inl (AttributeError ''ALLOWED_FILE_TYPES_MANAGER'')"
    by (simp add: check_file_type_def settings_attr_def Settings_list_attributes_def)
  have type_admin: "role actor = ADMIN \<Longrightarrow>
      check_file_type file actor = Inl (AttributeError ''ALLOWED_FILE_TYPES_ADMIN'')"
    by (simp add: check_file_type_def settings_attr_def Settings_list_attributes_def)
  have res: "upload_file env db file v actor =
          (if (case upload_size file of
                 None \<Rightarrow> False
               | Some n \<Rightarrow> n \<noteq> 0 \<and> n > (if role actor = MANAGER then MAX_FILE_SIZE_MANAGER
                                          else MAX_FILE_SIZE_ADMIN))
           then (Inl (HTTPException 413
                        ''File size exceeds maximum allowed size for your role''), db)
           else (Inl (AttributeError (if role actor = MANAGER then ''ALLOWED_FILE_TYPES_MANAGER''
                                      else ''ALLOWED_FILE_TYPES_ADMIN'')), db))"
    if "role actor = MANAGER \<or> role actor = ADMIN" for v
    using that type_manager type_admin
    by (auto simp add: upload_file_def check_file_size_def)
  have main: "(role actor = MANAGER \<or> role actor = ADMIN) \<longrightarrow>
        upload_file env db file vis actor =
          (if (case upload_size file of
                 None \<Rightarrow> False
               | Some n \<Rightarrow> n \<noteq> 0 \<and> n > (if role actor = MANAGER then MAX_FILE_SIZE_MANAGER
                                          else MAX_FILE_SIZE_ADMIN))
           then (Inl (HTTPException 413
                        ''File size exceeds maximum allowed size for your role''), db)
           else (Inl (AttributeError (if role actor = MANAGER then ''ALLOWED_FILE_TYPES_MANAGER''
                                      else ''ALLOWED_FILE_TYPES_ADMIN'')), db))
        \<and> upload_file env db file vis actor = upload_file env db file vis' actor"
    using res [of vis] res [of vis'] by simp
  have not_user: "role actor = MANAGER \<or> role actor = ADMIN" if "role actor \<noteq> USER"
    using that by (cases "role actor") simp_all
  have stored: "\<forall>file_record db'. upload_file env db file vis actor = (Inr file_record, db') \<longrightarrow>
          role actor = USER"
  proof (intro allI impI)
    fix file_record db'
    assume ok: "upload_file env db file vis actor = (Inr file_record, db')"
    show "role actor = USER"
    proof (rule ccontr)
      assume "role actor \<noteq> USER"
      then have "role actor = MANAGER \<or> role actor = ADMIN" by (rule not_user)
      from res [OF this, of vis] ok show False by (simp split: if_splits)
    qed
  qed
  have refused: "fst (upload_file env db file vis actor)
         = Inl (HTTPException 403 ''USER role can only create PRIVATE files'') \<longrightarrow>
          role actor = USER"
  proof
    assume no: "fst (upload_file env db file vis actor)
         = Inl (HTTPException 403 ''USER role can only create PRIVATE files'')"
    show "role actor = USER"
    proof (rule ccontr)
      assume "role actor \<noteq> USER"
      then have "role actor = MANAGER \<or> role actor = ADMIN" by (rule not_user)
      from res [OF this, of vis] no show False by (simp split: if_splits)
    qed
  qed
  from attrs main stored refused show ?thesis by blast
qed

theorem manager_admin_upload_fails_witness:
  "role manager1 = MANAGER
   \<and> upload_file demo_env demo_db (demo_upload ''report.pdf'' 3) PUBLIC manager1
       = (Inl (AttributeError ''ALLOWED_FILE_TYPES_MANAGER''), demo_db)
   \<and> upload_file demo_env demo_db (demo_upload ''report.pdf'' 3) PRIVATE manager1
       = (Inl (AttributeError ''ALLOWED_FILE_TYPES_MANAGER''), demo_db)
   \<and> role admin1 = ADMIN
   \<and> upload_file demo_env demo_db (demo_upload ''report.pdf'' 3) PRIVATE admin1
       = (Inl (AttributeError ''ALLOWED_FILE_TYPES_ADMIN''), demo_db)
   \<and> upload_file demo_env demo_db (demo_upload ''report.pdf'' 104857601) PRIVATE admin1
       = (Inl (HTTPException 413 ''File size exceeds maximum allowed size for your role''),
          demo_db)"
proof -
  have r: "role manager1 = MANAGER" "role admin1 = ADMIN"
    by (simp_all add: demo_defs)
  note a = manager_admin_upload_fails [of manager1 demo_env demo_db
      "demo_upload ''report.pdf'' 3" PUBLIC PRIVATE]
  note b = manager_admin_upload_fails [of manager1 demo_env demo_db
      "demo_upload ''report.pdf'' 3" PRIVATE PUBLIC]
  note c = manager_admin_upload_fails [of admin1 demo_env demo_db
      "demo_upload ''report.pdf'' 3" PRIVATE PUBLIC]
  note d = manager_admin_upload_fails [of admin1 demo_env demo_db
      "demo_upload ''report.pdf'' 104857601" PRIVATE PUBLIC]
  have a': "upload_file demo_env demo_db (demo_upload ''report.pdf'' 3) PUBLIC manager1
       = (Inl (AttributeError ''ALLOWED_FILE_TYPES_MANAGER''), demo_db)"
    using a r by (simp add: demo_upload_def MAX_FILE_SIZE_MANAGER_def)
  have b': "upload_file demo_env demo_db (demo_upload ''report.pdf'' 3) PRIVATE manager1
       = (Inl (AttributeError ''ALLOWED_FILE_TYPES_MANAGER''), demo_db)"
    using b r by (simp add: demo_upload_def MAX_FILE_SIZE_MANAGER_def)
  have c': "upload_file demo_env demo_db (demo_upload ''report.pdf'' 3) PRIVATE admin1
       = (Inl (AttributeError ''ALLOWED_FILE_TYPES_ADMIN''), demo_db)"
    using c r by (simp add: demo_upload_def MAX_FILE_SIZE_ADMIN_def)
  have d': "upload_file demo_env demo_db (demo_upload ''report.pdf'' 104857601) PRIVATE admin1
       = (Inl (HTTPException 413 ''File size exceeds maximum allowed size for your role''),
          demo_db)"
    using d r by (simp add: demo_upload_def MAX_FILE_SIZE_ADMIN_def)
  from r a' b' c' d' show ?thesis by simp
qed

text \<open>
  The claim as written fails on an upload over the size limit: a MANAGER sending
  52428801 bytes (one more than 50 MB) is answered with the handled 413, not with the
  missing-attribute error.
\<close>

theorem manager_oversize_upload_is_413:
  "role manager1 = MANAGER
   \<and> upload_file demo_env demo_db (demo_upload ''report.pdf'' 52428801) PUBLIC manager1
       = (Inl (HTTPException 413 ''File size exceeds maximum allowed size for your role''),
          demo_db)
   \<and> fst (upload_file demo_env demo_db (demo_upload ''report.pdf'' 52428801) PUBLIC manager1)
       \<noteq> Inl (AttributeError ''ALLOWED_FILE_TYPES_MANAGER'')"
proof -
  have r: "role manager1 = MANAGER"
    by (simp add: demo_defs)
  have sz: "check_file_size (demo_upload ''report.pdf'' 52428801) manager1
              = Inl (HTTPException 413 ''File size exceeds maximum allowed size for your role'')"
    by (simp add: check_file_size_def demo_upload_def r MAX_FILE_SIZE_MANAGER_def)
  have up: "upload_file demo_env demo_db (demo_upload ''report.pdf'' 52428801) PUBLIC manager1
       = (Inl (HTTPException 413 ''File size exceeds maximum allowed size for your role''),
          demo_db)"
    by (simp add: upload_file_def sz)
  from r up show ?thesis by simp
qed

end
